theory Spec2Isabelle
  imports Complex_Main
begin

section \<open>Python values, exceptions and the outside world\<close>

text \<open>
  The program is \<^verbatim>\<open>humtemplogger.py\<close>: a \<^verbatim>\<open>Sensor\<close> wraps one DHT22 device,
  a \<^verbatim>\<open>Logger\<close> collects the samples of one sensor and appends their averages to a
  CSV file, and \<^verbatim>\<open>main\<close> builds one logger per pin argument and drives the
  sampling loop.

  Python floats are modelled by real numbers: rounding is not modelled. The one float
  that is not a number, \<^verbatim>\<open>float('nan')\<close>, is a constructor of its own.
\<close>

datatype pyfloat = Float real | NaN

text \<open>The exceptions that can leave a function of the program.\<close>

datatype exn =
    InvalidPinError string
  | ValueError string
  | UnboundLocalError string
  | AttributeError string
  | TypeError
  | StatisticsError

text \<open>
  Reading the attribute \<^verbatim>\<open>temperature\<close> or \<^verbatim>\<open>humidity\<close> of the DHT22 driver
  object either yields a float or raises \<^verbatim>\<open>RuntimeError\<close> with a message.
\<close>

datatype dht_attr = Value real | RuntimeError string

section \<open>Sensor\<close>

record Sensor =
  pin :: int
  devID :: string
  temp :: "real option"
  humidity :: "real option"
  error :: bool
  error_message :: "string option"

text \<open>
  \<^verbatim>\<open>Sensor.poll\<close>: the two arguments are what the driver answers to the two
  attribute reads of the \<^verbatim>\<open>try\<close> block; the second read only happens when the
  first one returned. The success path assigns \<^verbatim>\<open>temp\<close> and
  \<^verbatim>\<open>humidity\<close> and nothing else.
\<close>

definition poll :: "dht_attr \<Rightarrow> dht_attr \<Rightarrow> Sensor \<Rightarrow> Sensor" where
  "poll temperature_read humidity_read self =
     (case temperature_read of
        RuntimeError err \<Rightarrow>
          self\<lparr>temp := None, humidity := None, error := True, error_message := Some err\<rparr>
      | Value t \<Rightarrow>
          (let self1 = self\<lparr>temp := Some t\<rparr> in
           case humidity_read of
             RuntimeError err \<Rightarrow>
               self1\<lparr>temp := None, humidity := None, error := True, error_message := Some err\<rparr>
           | Value h \<Rightarrow> self1\<lparr>humidity := Some h\<rparr>))"

text \<open>
  \<^verbatim>\<open>Sensor.get_tempf\<close> tests the truth value of \<^verbatim>\<open>self.temp\<close>: \<^verbatim>\<open>None\<close> and
  \<^verbatim>\<open>0.0\<close> are both false in Python, and then \<^verbatim>\<open>self.temp\<close> itself is returned.
\<close>

definition get_tempf :: "Sensor \<Rightarrow> real option" where
  "get_tempf self =
     (case temp self of
        None \<Rightarrow> temp self
      | Some t \<Rightarrow> if t \<noteq> 0 then Some (t * (9 / 5) + 32) else temp self)"

definition get_tempc :: "Sensor \<Rightarrow> real option" where
  "get_tempc self = temp self"

definition get_humidity :: "Sensor \<Rightarrow> real option" where
  "get_humidity self = humidity self"

text \<open>\<^verbatim>\<open>Sensor.get_error\<close> returns the stored message and the updated sensor.\<close>

definition get_error :: "Sensor \<Rightarrow> string option \<times> Sensor" where
  "get_error self =
     (let self1 = self\<lparr>error := False\<rparr>;
          result = error_message self1
      in (result, self1\<lparr>error_message := None\<rparr>))"


section \<open>Logger\<close>

text \<open>
  The sample lists hold whatever the getters of the sensor return, a float or
  \<^verbatim>\<open>None\<close>. The attribute \<^verbatim>\<open>f\<close> exists only once \<^verbatim>\<open>open\<close> has returned:
  \<open>f_handle\<close> is \<open>None\<close> while it is missing, and otherwise holds the path of the
  open file (one handle per path).
\<close>

record Logger =
  sensor :: Sensor
  datafile :: string
  tempc :: "real option list"
  tempf :: "real option list"
  humidity_samples :: "real option list"
  error_message_L :: "string option"
  f_handle :: "string option"

text \<open>
  What is written to a file: text, and floats formatted by an f-string, whose decimal
  rendering (\<^verbatim>\<open>nan\<close> for NaN) is kept symbolic.
\<close>

datatype frag = Txt string | Num pyfloat

text \<open>
  The world outside the program: the file system (\<open>files\<close>, and \<open>openable\<close> telling
  whether \<^verbatim>\<open>open(path, 'a+')\<close> succeeds), standard output as the list of the texts
  printed, the DHT22 devices (\<open>dht p n\<close> is what the device on pin \<open>p\<close> answers to the
  two attribute reads of its \<open>n\<close>-th poll, \<open>polls p\<close> counts the polls made so far),
  and the clock (\<open>now\<close> in seconds, rendered by \<open>strftime\<close>).
\<close>

record world =
  files :: "string \<Rightarrow> frag list option"
  openable :: "string \<Rightarrow> bool"
  stdout :: "string list"
  dht :: "int \<Rightarrow> nat \<Rightarrow> dht_attr \<times> dht_attr"
  polls :: "int \<Rightarrow> nat"
  now :: nat
  strftime :: "string \<Rightarrow> nat \<Rightarrow> string"

definition CRLF :: string where
  "CRLF = [CHR 0x0D, CHR 0x0A]"

text \<open>\<^verbatim>\<open>print(text, end=e)\<close>, and \<^verbatim>\<open>print(text)\<close> whose end is a line feed.\<close>

definition py_print_end :: "string \<Rightarrow> string \<Rightarrow> world \<Rightarrow> world" where
  "py_print_end text e w = w\<lparr>stdout := stdout w @ [text @ e]\<rparr>"

definition py_print :: "string \<Rightarrow> world \<Rightarrow> world" where
  "py_print text w = py_print_end text [CHR 0x0A] w"

definition f_write :: "string \<Rightarrow> frag list \<Rightarrow> world \<Rightarrow> world" where
  "f_write path text w =
     w\<lparr>files := (files w)(path \<mapsto> (case files w path of None \<Rightarrow> [] | Some c \<Rightarrow> c) @ text)\<rparr>"

definition dht_next :: "int \<Rightarrow> world \<Rightarrow> (dht_attr \<times> dht_attr) \<times> world" where
  "dht_next p w = (dht w p (polls w p), w\<lparr>polls := (polls w)(p := Suc (polls w p))\<rparr>)"

definition sleep :: "nat \<Rightarrow> world \<Rightarrow> world" where
  "sleep secs w = w\<lparr>now := now w + secs\<rparr>"

subsection \<open>Integers and strings\<close>

text \<open>The value of an ASCII digit, from its character code.\<close>

definition digit_val :: "char \<Rightarrow> nat option" where
  "digit_val c =
     (let code = (of_char c :: nat)
      in if 48 \<le> code \<and> code \<le> 57 then Some (code - 48) else None)"

text \<open>
  The digits of an integer literal, with the value read so far and whether the
  previous character was a digit: single underscores are allowed between digits.
\<close>

fun int_digits :: "nat \<Rightarrow> bool \<Rightarrow> string \<Rightarrow> nat option" where
  "int_digits acc prev [] = (if prev then Some acc else None)"
| "int_digits acc prev (c # cs) =
     (case digit_val c of
        Some d \<Rightarrow> int_digits (10 * acc + d) True cs
      | None \<Rightarrow> if c = CHR ''_'' \<and> prev then int_digits acc False cs else None)"

text \<open>
  The white space that \<^verbatim>\<open>int\<close> strips, among the characters with a code below 256.
\<close>

definition is_space :: "char \<Rightarrow> bool" where
  "is_space c = (c = CHR '' '' \<or> c = CHR 0x09 \<or> c = CHR 0x0A \<or> c = CHR 0x0B
                 \<or> c = CHR 0x0C \<or> c = CHR 0x0D \<or> c = CHR 0x85 \<or> c = CHR 0xA0)"

definition strip :: "string \<Rightarrow> string" where
  "strip s = rev (dropWhile is_space (rev (dropWhile is_space s)))"

text \<open>
  The conversion refuses a literal with more digits than the interpreter's limit,
  4300 unless it is reconfigured; underscores and the sign do not count.
\<close>

definition int_max_str_digits :: nat where
  "int_max_str_digits = 4300"

definition int_literal :: "string \<Rightarrow> nat option" where
  "int_literal body =
     (if length (filter (\<lambda>c. digit_val c \<noteq> None) body) > int_max_str_digits then None
      else int_digits 0 False body)"

text \<open>
  \<^verbatim>\<open>int(s)\<close> for a string of characters with a code below 256: surrounding white
  space, an optional sign, decimal digits. \<open>None\<close> stands for \<^verbatim>\<open>ValueError\<close>.
  Digits of other scripts, which lie above 255, are not modelled.
\<close>

definition py_int :: "string \<Rightarrow> int option" where
  "py_int s =
     (case strip s of
        [] \<Rightarrow> None
      | c # cs \<Rightarrow>
          if c = CHR ''-'' then map_option (\<lambda>n. - int n) (int_literal cs)
          else if c = CHR ''+'' then map_option int (int_literal cs)
          else map_option int (int_literal (c # cs)))"

definition digit_char :: "nat \<Rightarrow> char" where
  "digit_char d = ''0123456789'' ! d"

function str_nat :: "nat \<Rightarrow> string" where
  "str_nat n = (if n < 10 then [digit_char n] else str_nat (n div 10) @ [digit_char (n mod 10)])"
  by pat_completeness auto
termination
  by (relation "measure id") auto

declare str_nat.simps [simp del]

definition str_int :: "int \<Rightarrow> string" where
  "str_int i = (if i < 0 then CHR ''-'' # str_nat (nat (- i)) else str_nat (nat i))"

subsection \<open>Construction of a Sensor\<close>

text \<open>
  \<^verbatim>\<open>Sensor.__init__\<close>. The pins \<^verbatim>\<open>board.D0\<close> to \<^verbatim>\<open>board.D27\<close> exist on the
  board the check is written for, and creating the driver object does not fail; the
  constructor ends with a first poll.
\<close>

definition Sensor_init :: "string \<Rightarrow> string option \<Rightarrow> world \<Rightarrow> (exn + Sensor) \<times> world" where
  "Sensor_init gpio_arg devID_arg w =
     (case py_int gpio_arg of
        None \<Rightarrow> (Inl (ValueError gpio_arg), w)
      | Some gpio \<Rightarrow>
          if gpio \<ge> 0 \<and> gpio \<le> 27 then
            (let pin_name = ''board.D'' @ str_int gpio;
                 self = \<lparr>pin = gpio,
                         devID = (case devID_arg of None \<Rightarrow> pin_name | Some d \<Rightarrow> d),
                         temp = None, humidity = None,
                         error = False, error_message = None\<rparr>;
                 (reads, w1) = dht_next gpio w
             in (Inr (poll (fst reads) (snd reads) self), w1))
          else (Inl (InvalidPinError ''Invalid pin number.  Must be between 0 and 27''), w))"

subsection \<open>The methods of Logger\<close>

definition header :: string where
  "header = ''Device ID, Date, Time, Temperature C, Temperature F, Humidity, Errors'' @ CRLF"

text \<open>
  \<^verbatim>\<open>Logger.__init__\<close>: opening in mode \<^verbatim>\<open>a+\<close> creates a missing file; the header
  is written when the file is empty. A failure of \<^verbatim>\<open>open\<close> is caught and dropped,
  and then \<^verbatim>\<open>self.f\<close> is never assigned.
\<close>

definition Logger_init :: "Sensor \<Rightarrow> string \<Rightarrow> world \<Rightarrow> Logger \<times> world" where
  "Logger_init sen logfile w =
     (let self = \<lparr>sensor = sen, datafile = logfile, tempc = [], tempf = [],
                  humidity_samples = [], error_message_L = Some [], f_handle = None\<rparr>
      in if openable w logfile then
           (let w1 = f_write logfile [] w;
                self1 = self\<lparr>f_handle := Some logfile\<rparr>
            in if files w1 logfile = Some [] then (self1, f_write logfile [Txt header] w1)
               else (self1, w1))
         else (self, w))"

text \<open>\<^verbatim>\<open>Logger.__del__\<close> closes the file, which needs the attribute \<^verbatim>\<open>f\<close>.\<close>

definition Logger_del :: "Logger \<Rightarrow> exn + unit" where
  "Logger_del self =
     (case f_handle self of None \<Rightarrow> Inl (AttributeError ''f'') | Some p \<Rightarrow> Inr ())"

definition read_sensor :: "dht_attr \<Rightarrow> dht_attr \<Rightarrow> Logger \<Rightarrow> Logger" where
  "read_sensor temperature_read humidity_read self =
     (let self1 = self\<lparr>sensor := poll temperature_read humidity_read (sensor self)\<rparr>
      in if \<not> error (sensor self1) then
           self1\<lparr>tempc := tempc self1 @ [get_tempc (sensor self1)],
                 tempf := tempf self1 @ [get_tempf (sensor self1)],
                 humidity_samples := humidity_samples self1 @ [get_humidity (sensor self1)]\<rparr>
         else
           (let (msg, sen) = get_error (sensor self1)
            in self1\<lparr>sensor := sen, error_message_L := msg\<rparr>))"

text \<open>
  \<^verbatim>\<open>statistics.mean\<close>: it raises on an empty list and on a list with an element
  that is not a number.
\<close>

fun floats :: "real option list \<Rightarrow> real list option" where
  "floats [] = Some []"
| "floats (None # xs) = None"
| "floats (Some x # xs) = map_option ((#) x) (floats xs)"

definition mean :: "real option list \<Rightarrow> exn + real" where
  "mean data =
     (if length data < 1 then Inl StatisticsError
      else case floats data of
             None \<Rightarrow> Inl TypeError
           | Some xs \<Rightarrow> Inr (sum_list xs / real (length xs)))"

definition average_samples :: "real option list \<Rightarrow> exn + pyfloat" where
  "average_samples samples =
     (if length samples > 0 then
        (case mean samples of Inl e \<Rightarrow> Inl e | Inr m \<Rightarrow> Inr (Float m))
      else Inr NaN)"

text \<open>
  \<^verbatim>\<open>Logger.log_data\<close>: one row with the three averages, written through
  \<^verbatim>\<open>self.f\<close>. No attribute of the logger is assigned: the logger is returned as
  it came.
\<close>

definition log_row :: "Logger \<Rightarrow> world \<Rightarrow> pyfloat \<Rightarrow> pyfloat \<Rightarrow> pyfloat \<Rightarrow> frag list" where
  "log_row self w tc tf h =
     [Txt (devID (sensor self) @ '', '' @ strftime w ''%m/%d/%y'' (now w) @ '', ''
           @ strftime w ''%H:%M:%S'' (now w) @ '', ''),
      Num tc, Txt '', '', Num tf, Txt '', '', Num h, Txt (''%'' @ CRLF)]"

definition log_data :: "Logger \<Rightarrow> world \<Rightarrow> exn + Logger \<times> world" where
  "log_data self w =
     (case average_samples (tempc self) of
        Inl e \<Rightarrow> Inl e
      | Inr tc \<Rightarrow>
     (case average_samples (tempf self) of
        Inl e \<Rightarrow> Inl e
      | Inr tf \<Rightarrow>
     (case average_samples (humidity_samples self) of
        Inl e \<Rightarrow> Inl e
      | Inr h \<Rightarrow>
     (case f_handle self of
        None \<Rightarrow> Inl (AttributeError ''f'')
      | Some path \<Rightarrow> Inr (self, f_write path (log_row self w tc tf h) w)))))"


section \<open>main\<close>

text \<open>Reading a local variable that no assignment has bound yet raises.\<close>

definition load_local :: "string \<Rightarrow> 'a option \<Rightarrow> exn + 'a" where
  "load_local name v = (case v of None \<Rightarrow> Inl (UnboundLocalError name) | Some x \<Rightarrow> Inr x)"

text \<open>
  The loop over the pin arguments, \<^verbatim>\<open>for i in range(2, len(args))\<close>: only
  \<^verbatim>\<open>InvalidPinError\<close> is caught, any other exception of the constructor leaves
  \<^verbatim>\<open>main\<close>.
\<close>

fun make_loggers :: "string \<Rightarrow> string list \<Rightarrow> Logger list \<Rightarrow> world \<Rightarrow> (exn + Logger list) \<times> world" where
  "make_loggers logfile_prefix [] loggers w = (Inr loggers, w)"
| "make_loggers logfile_prefix (arg # rest) loggers w =
     (case Sensor_init arg None w of
        (Inl (InvalidPinError message), w1) \<Rightarrow>
          make_loggers logfile_prefix rest loggers
            (py_print (''skipping pin #'' @ arg) (py_print message w1))
      | (Inl e, w1) \<Rightarrow> (Inl e, w1)
      | (Inr sen, w1) \<Rightarrow>
          (let logfile = logfile_prefix @ ''_'' @ devID sen @ ''.csv'';
               (logger, w2) = Logger_init sen logfile w1
           in make_loggers logfile_prefix rest (loggers @ [logger]) w2))"

text \<open>\<^verbatim>\<open>for logger in loggers: logger.read_sensor()\<close>\<close>

fun read_all :: "Logger list \<Rightarrow> world \<Rightarrow> Logger list \<times> world" where
  "read_all [] w = ([], w)"
| "read_all (logger # rest) w =
     (let (reads, w1) = dht_next (pin (sensor logger)) w;
          logger1 = read_sensor (fst reads) (snd reads) logger;
          (rest1, w2) = read_all rest w1
      in (logger1 # rest1, w2))"

text \<open>\<^verbatim>\<open>for logger in loggers: logger.log_data()\<close>\<close>

fun log_all :: "Logger list \<Rightarrow> world \<Rightarrow> (exn + Logger list) \<times> world" where
  "log_all [] w = (Inr [], w)"
| "log_all (logger # rest) w =
     (case log_data logger w of
        Inl e \<Rightarrow> (Inl e, w)
      | Inr (logger1, w1) \<Rightarrow>
          (case log_all rest w1 of
             (Inl e, w2) \<Rightarrow> (Inl e, w2)
           | (Inr rest1, w2) \<Rightarrow> (Inr (logger1 # rest1), w2)))"

text \<open>
  The inner loop \<^verbatim>\<open>while samples > 0\<close>, with the value of \<^verbatim>\<open>readings\<close> that the
  progress message shows.
\<close>

fun sample_loop :: "nat \<Rightarrow> nat \<Rightarrow> Logger list \<Rightarrow> world \<Rightarrow> Logger list \<times> world" where
  "sample_loop readings 0 loggers w = (loggers, w)"
| "sample_loop readings (Suc n) loggers w =
     (let (loggers1, w1) = read_all loggers w;
          w2 = py_print_end (''reading:  '' @ str_nat readings @ '', sample #''
                 @ str_nat (Suc n) @ ''   '' @ [CHR 0x0D]) [] w1;
          w3 = sleep 1 w2
      in sample_loop readings n loggers1 w3)"

text \<open>
  The outer loop \<^verbatim>\<open>while readings > 0\<close>. The source starts \<^verbatim>\<open>readings\<close> at 5
  and \<^verbatim>\<open>samples\<close> at 10; here the two start values are arguments.
\<close>

fun main_loop :: "nat \<Rightarrow> nat \<Rightarrow> Logger list \<Rightarrow> world \<Rightarrow> (exn + Logger list) \<times> world" where
  "main_loop 0 samples loggers w = (Inr loggers, w)"
| "main_loop (Suc r) samples loggers w =
     (let (loggers1, w1) = sample_loop (Suc r) samples loggers w
      in case log_all loggers1 w1 of
           (Inl e, w2) \<Rightarrow> (Inl e, w2)
         | (Inr loggers2, w2) \<Rightarrow> main_loop r samples loggers2 w2)"

text \<open>
  \<^verbatim>\<open>main\<close>, with the start values of its two counters as arguments, and as the
  source has it, with 5 readings of 10 samples. In the branch without a prefix the message reads the local variable
  \<^verbatim>\<open>logfile\<close>, and in the branch without pins the file name reads the local
  variable \<^verbatim>\<open>sen\<close>; on neither path has an assignment bound the variable. The
  final \<^verbatim>\<open>del logger\<close> only unbinds the loop variable.
\<close>

definition main_with :: "nat \<Rightarrow> nat \<Rightarrow> string list \<Rightarrow> world \<Rightarrow> (exn + int) \<times> world" where
  "main_with readings samples args w =
     (if length args > 1 \<and> (args ! 1 = ''--help'' \<or> args ! 1 = ''-h'') then
        (Inr 0,
         py_print ''example:  humtemplogger beehive_1 4 17''
           (py_print ''humtemplogger ussage:  humtemplogger [datafile_prefix [pin numbers...]]'' w))
      else
        (case (if length args > 1 then Inr (args ! 1, w)
               else (case load_local ''logfile'' (None :: string option) of
                       Inl e \<Rightarrow> Inl e
                     | Inr logfile \<Rightarrow>
                         Inr (''humtemp'',
                              py_print (''no data file specified, using default value:  ''
                                        @ logfile) w))) of
           Inl e \<Rightarrow> (Inl e, w)
         | Inr (logfile_prefix, w1) \<Rightarrow>
             (case (if length args > 2 then make_loggers logfile_prefix (drop 2 args) [] w1
                    else (let w2 = py_print ''no gpio data pins specified, using default value:  4'' w1
                          in case load_local ''sen'' (None :: Sensor option) of
                               Inl e \<Rightarrow> (Inl e, w2)
                             | Inr sen \<Rightarrow>
                                 (let logfile = logfile_prefix @ ''_'' @ devID sen @ ''.csv'';
                                      (logger, w3) = Logger_init sen logfile w2
                                  in (Inr ([] @ [logger]), w3)))) of
                (Inl e, w2) \<Rightarrow> (Inl e, w2)
              | (Inr loggers, w2) \<Rightarrow>
                  (case main_loop readings samples loggers w2 of
                     (Inl e, w3) \<Rightarrow> (Inl e, w3)
                   | (Inr loggers1, w3) \<Rightarrow> (Inr 0, w3)))))"

definition main :: "string list \<Rightarrow> world \<Rightarrow> (exn + int) \<times> world" where
  "main args w = main_with 5 10 args w"


section \<open>The cycle of one logger\<close>

text \<open>
  What one logger goes through during consecutive passes of the sampling loop: one
  call of \<^verbatim>\<open>read_sensor\<close> per pass, each with the answers the driver gives to
  that poll.
\<close>

fun ticks :: "(dht_attr \<times> dht_attr) list \<Rightarrow> Logger \<Rightarrow> Logger" where
  "ticks [] logger = logger"
| "ticks (reads # rest) logger = ticks rest (read_sensor (fst reads) (snd reads) logger)"

text \<open>The readings of the polls that succeed: both attribute reads returned a value.\<close>

fun successes :: "(dht_attr \<times> dht_attr) list \<Rightarrow> (real \<times> real) list" where
  "successes [] = []"
| "successes ((Value t, Value h) # rest) = (t, h) # successes rest"
| "successes ((Value t, RuntimeError e) # rest) = successes rest"
| "successes ((RuntimeError e, humidity_read) # rest) = successes rest"

text \<open>What \<^verbatim>\<open>get_tempf\<close> returns while \<^verbatim>\<open>self.temp\<close> is the float \<open>t\<close>.\<close>

definition get_tempf_float :: "real \<Rightarrow> real" where
  "get_tempf_float t = (if t \<noteq> 0 then t * (9 / 5) + 32 else t)"

text \<open>The average as the specification words it: NaN without samples, else the arithmetic mean.\<close>

definition arithmetic_mean :: "real list \<Rightarrow> pyfloat" where
  "arithmetic_mean xs = (if xs = [] then NaN else Float (sum_list xs / real (length xs)))"


section \<open>An example run\<close>

text \<open>
  One sensor on pin 4 whose first poll, the one of the constructor, succeeds, and whose
  next six polls are: a reading of 20 degrees and 50 percent, a failure, a reading of 22
  degrees and 55 percent, and three failures. Every later poll fails. No file exists
  yet, every file can be opened, and the clock starts at noon.
\<close>

definition checksum_failure :: "dht_attr \<times> dht_attr" where
  "checksum_failure = (RuntimeError ''Checksum did not validate. Try again.'', Value 0)"

definition example_polls :: "(dht_attr \<times> dht_attr) list" where
  "example_polls =
     [(Value 21, Value 52),
      (Value 20, Value 50), checksum_failure, (Value 22, Value 55),
      checksum_failure, checksum_failure, checksum_failure]"

definition example_world :: world where
  "example_world =
     \<lparr>files = (\<lambda>path. None),
      openable = (\<lambda>path. True),
      stdout = [],
      dht = (\<lambda>p n. if n < length example_polls then example_polls ! n else checksum_failure),
      polls = (\<lambda>p. 0),
      now = 0,
      strftime = (\<lambda>format secs.
        if format = ''%m/%d/%y'' then ''11/03/26''
        else if secs < 10 then ''12:00:0'' @ str_nat secs else ''12:00:'' @ str_nat secs)\<rparr>"

text \<open>The same world, except that no file can be opened.\<close>

definition closed_world :: world where
  "closed_world = example_world\<lparr>openable := (\<lambda>path. False)\<rparr>"

text \<open>A logger as the constructors leave it, with its file open.\<close>

definition example_logger :: Logger where
  "example_logger =
     \<lparr>sensor = \<lparr>pin = 4, devID = ''board.D4'', temp = Some 21, humidity = Some 52,
                 error = False, error_message = None\<rparr>,
      datafile = ''beehive_1_board.D4.csv'',
      tempc = [], tempf = [], humidity_samples = [],
      error_message_L = Some [],
      f_handle = Some ''beehive_1_board.D4.csv''\<rparr>"


section \<open>Properties of Sensor\<close>

lemma poll_success [simp]:
  "poll (Value t) (Value h) self = self\<lparr>temp := Some t, humidity := Some h\<rparr>"
  by (simp add: poll_def)

lemma poll_temperature_fails [simp]:
  "poll (RuntimeError e) humidity_read self =
     self\<lparr>temp := None, humidity := None, error := True, error_message := Some e\<rparr>"
  by (simp add: poll_def)

lemma poll_humidity_fails [simp]:
  "poll (Value t) (RuntimeError e) self =
     self\<lparr>temp := None, humidity := None, error := True, error_message := Some e\<rparr>"
  by (simp add: poll_def)

text \<open>
  Claim C10. After any call of \<^verbatim>\<open>poll\<close>, on any sensor and so also on one that holds
  an earlier reading, either both attribute reads returned and \<^verbatim>\<open>get_tempc\<close> and
  \<^verbatim>\<open>get_humidity\<close> give exactly their two values, or one of the reads raised and both
  getters give \<^verbatim>\<open>None\<close>.
\<close>

theorem poll_values_or_none:
  "(\<exists>t h. temperature_read = Value t \<and> humidity_read = Value h
      \<and> get_tempc (poll temperature_read humidity_read self) = Some t
      \<and> get_humidity (poll temperature_read humidity_read self) = Some h)
   \<or> ((\<exists>e. temperature_read = RuntimeError e \<or> humidity_read = RuntimeError e)
      \<and> get_tempc (poll temperature_read humidity_read self) = None
      \<and> get_humidity (poll temperature_read humidity_read self) = None)"
proof (cases temperature_read)
  case (Value t)
  then show ?thesis
    by (cases humidity_read) (simp_all add: get_tempc_def get_humidity_def)
next
  case (RuntimeError e)
  then show ?thesis
    by (auto simp add: get_tempc_def get_humidity_def)
qed

text \<open>
  Claim C3, as the code has it. After a failed poll, whichever of the two reads raised,
  \<^verbatim>\<open>get_error\<close> returns the message of that failure; a second call in a row returns
  \<^verbatim>\<open>None\<close>. A successful poll leaves the error flag and the stored message as they
  were, so \<^verbatim>\<open>get_error\<close> right after it returns whatever was stored before the poll.
\<close>

theorem get_error_after_poll:
  "fst (get_error (poll (RuntimeError e) humidity_read self)) = Some e
   \<and> fst (get_error (poll (Value t) (RuntimeError e) self)) = Some e
   \<and> fst (get_error (snd (get_error self))) = None
   \<and> fst (get_error (poll (Value t) (Value h) self)) = error_message self
   \<and> error (poll (Value t) (Value h) self) = error self"
  by (simp add: get_error_def)

text \<open>
  Claim C3 as stated fails: on a sensor whose first poll failed, \<^verbatim>\<open>get_error\<close> called
  right after the next, successful poll still returns the message of the failure.
\<close>

theorem get_error_after_successful_poll_counterexample:
  "fst (get_error (poll (Value 20) (Value 50)
          (poll (RuntimeError ''Checksum did not validate. Try again.'') (Value 0)
             \<lparr>pin = 4, devID = ''board.D4'', temp = None, humidity = None,
              error = False, error_message = None\<rparr>)))
   = Some ''Checksum did not validate. Try again.''"
  by (simp add: get_error_def)

lemma get_tempf_Some:
  "get_tempf (self\<lparr>temp := Some t\<rparr>) = Some (get_tempf_float t)"
  by (simp add: get_tempf_def get_tempf_float_def)

lemma get_tempf_nonzero:
  "t \<noteq> 0 \<Longrightarrow> get_tempf (poll (Value t) (Value h) self) = Some (t * 9 / 5 + 32)"
  by (simp add: get_tempf_def)

text \<open>
  Claim C5 at a reading of 0 degrees Celsius: \<^verbatim>\<open>get_tempf\<close> returns 0 and not 32,
  \<^verbatim>\<open>read_sensor\<close> stores that 0 in the Fahrenheit list of the logger, and the average
  of that list is 0.
\<close>

theorem get_tempf_at_zero:
  "get_tempc (poll (Value 0) (Value h) self) = Some 0
   \<and> get_tempf (poll (Value 0) (Value h) self) = Some 0
   \<and> tempf (read_sensor (Value 0) (Value h) example_logger) = [Some 0]
   \<and> average_samples (tempc (read_sensor (Value 0) (Value h) example_logger)) = Inr (Float 0)
   \<and> average_samples (tempf (read_sensor (Value 0) (Value h) example_logger)) = Inr (Float 0)"
  by (simp add: get_tempc_def get_tempf_def read_sensor_def example_logger_def
      average_samples_def mean_def)

section \<open>Properties of Logger\<close>

lemma floats_map_Some [simp]: "floats (map Some xs) = Some xs"
  by (induction xs) simp_all

lemma average_samples_floats:
  "average_samples (map Some xs) = Inr (arithmetic_mean xs)"
  by (cases xs) (simp_all add: average_samples_def mean_def arithmetic_mean_def)

text \<open>
  Claim C8. \<^verbatim>\<open>average_samples\<close> returns NaN for the empty list, and for a list of
  floats that is not empty it returns their sum divided by their number. \<^verbatim>\<open>log_data\<close>
  applies it to each of the three lists on its own.
\<close>

theorem average_samples_mean:
  "average_samples [] = Inr NaN
   \<and> (xs \<noteq> [] \<longrightarrow> average_samples (map Some xs) = Inr (Float (sum_list xs / real (length xs))))"
  by (cases xs) (simp_all add: average_samples_def mean_def)

theorem average_samples_mean_witness:
  "[20, 22 :: real] \<noteq> [] \<and> average_samples (map Some [20, 22]) = Inr (Float 21)"
  using average_samples_mean [of "[20, 22]"] by simp

lemma read_sensor_success:
  "\<not> error (sensor logger) \<Longrightarrow>
   read_sensor (Value t) (Value h) logger =
     logger\<lparr>sensor := (sensor logger)\<lparr>temp := Some t, humidity := Some h\<rparr>,
            tempc := tempc logger @ [Some t],
            tempf := tempf logger @ [get_tempf ((sensor logger)\<lparr>temp := Some t\<rparr>)],
            humidity_samples := humidity_samples logger @ [Some h]\<rparr>"
  by (simp add: read_sensor_def get_tempc_def get_tempf_def get_humidity_def)

lemma read_sensor_failure:
  "temperature_read = RuntimeError e
     \<or> (\<exists>t. temperature_read = Value t \<and> humidity_read = RuntimeError e) \<Longrightarrow>
   read_sensor temperature_read humidity_read logger =
     logger\<lparr>sensor := (sensor logger)\<lparr>temp := None, humidity := None, error := False,
                                      error_message := None\<rparr>,
            error_message_L := Some e\<rparr>"
  by (auto simp add: read_sensor_def get_error_def)

text \<open>
  While the error flag of the sensor is still set, as it is after a constructor whose
  first poll failed, a successful poll adds no sample: \<^verbatim>\<open>read_sensor\<close> takes the
  old message instead and clears the flag.
\<close>

lemma read_sensor_pending_error:
  "error (sensor logger) \<Longrightarrow>
   tempc (read_sensor (Value t) (Value h) logger) = tempc logger
   \<and> tempf (read_sensor (Value t) (Value h) logger) = tempf logger
   \<and> humidity_samples (read_sensor (Value t) (Value h) logger) = humidity_samples logger
   \<and> error_message_L (read_sensor (Value t) (Value h) logger) = error_message (sensor logger)
   \<and> \<not> error (sensor (read_sensor (Value t) (Value h) logger))"
  by (simp add: read_sensor_def get_error_def)

text \<open>
  On a logger whose sensor has no error pending, the ticks append the readings of the
  successful polls, in order, and nothing else; the error flag is clear again afterwards.
\<close>

lemma ticks_samples:
  "\<not> error (sensor logger) \<Longrightarrow>
   tempc (ticks rs logger) = tempc logger @ map (\<lambda>r. Some (fst r)) (successes rs)
   \<and> tempf (ticks rs logger)
       = tempf logger @ map (\<lambda>r. get_tempf ((sensor logger)\<lparr>temp := Some (fst r)\<rparr>)) (successes rs)
   \<and> humidity_samples (ticks rs logger)
       = humidity_samples logger @ map (\<lambda>r. Some (snd r)) (successes rs)
   \<and> \<not> error (sensor (ticks rs logger))
   \<and> f_handle (ticks rs logger) = f_handle logger
   \<and> devID (sensor (ticks rs logger)) = devID (sensor logger)"
proof (induction rs arbitrary: logger rule: successes.induct)
  case 1
  then show ?case by simp
next
  case (2 t h rest)
  then show ?case
    by (simp add: read_sensor_success get_tempf_def)
next
  case (3 t e rest)
  then show ?case
    by (simp add: read_sensor_failure get_tempf_def)
next
  case (4 e humidity_read rest)
  then show ?case
    by (simp add: read_sensor_failure get_tempf_def)
qed

text \<open>
  Claim C1, as the code has it. Take a logger with an open file, empty lists and a
  sensor without a pending error, and let it go through any number of ticks. Then the
  lists hold exactly the samples of the polls that succeeded, \<^verbatim>\<open>log_data\<close> writes one
  row whose three numbers are the averages over exactly these samples (NaN when no poll
  succeeded), and the logger that \<^verbatim>\<open>log_data\<close> leaves behind is the one it was
  given: the lists still hold the samples.
\<close>

theorem log_data_after_ticks:
  assumes "\<not> error (sensor logger)"
    and "tempc logger = []" and "tempf logger = []" and "humidity_samples logger = []"
    and "f_handle logger = Some path"
  shows "tempc (ticks rs logger) = map Some (map fst (successes rs))
    \<and> tempf (ticks rs logger) = map Some (map (\<lambda>r. get_tempf_float (fst r)) (successes rs))
    \<and> humidity_samples (ticks rs logger) = map Some (map snd (successes rs))
    \<and> log_data (ticks rs logger) w =
        Inr (ticks rs logger,
             f_write path
               (log_row (ticks rs logger) w
                  (arithmetic_mean (map fst (successes rs)))
                  (arithmetic_mean (map (\<lambda>r. get_tempf_float (fst r)) (successes rs)))
                  (arithmetic_mean (map snd (successes rs)))) w)"
proof -
  note t = ticks_samples [OF assms(1), of rs]
  have c: "tempc (ticks rs logger) = map Some (map fst (successes rs))"
    using t assms(2) by simp
  have f: "tempf (ticks rs logger) = map Some (map (\<lambda>r. get_tempf_float (fst r)) (successes rs))"
    using t assms(3) by (simp add: get_tempf_Some)
  have h: "humidity_samples (ticks rs logger) = map Some (map snd (successes rs))"
    using t assms(4) by simp
  have p: "f_handle (ticks rs logger) = Some path"
    using t assms(5) by simp
  have "log_data (ticks rs logger) w =
        Inr (ticks rs logger,
             f_write path
               (log_row (ticks rs logger) w
                  (arithmetic_mean (map fst (successes rs)))
                  (arithmetic_mean (map (\<lambda>r. get_tempf_float (fst r)) (successes rs)))
                  (arithmetic_mean (map snd (successes rs)))) w)"
    unfolding log_data_def c f h p average_samples_floats by simp
  with c f h show ?thesis by simp
qed

text \<open>
  The theorem at three ticks of which the second fails: the lists hold the two
  readings, and the row carries 21, 69.8 and 52.5.
\<close>

theorem log_data_after_ticks_witness:
  "\<not> error (sensor example_logger) \<and> tempc example_logger = [] \<and> tempf example_logger = []
   \<and> humidity_samples example_logger = []
   \<and> f_handle example_logger = Some ''beehive_1_board.D4.csv''
   \<and> tempc (ticks [(Value 20, Value 50), checksum_failure, (Value 22, Value 55)] example_logger)
       = [Some 20, Some 22]
   \<and> map_sum id (\<lambda>r. files (snd r) ''beehive_1_board.D4.csv'')
        (log_data (ticks [(Value 20, Value 50), checksum_failure, (Value 22, Value 55)] example_logger)
           example_world)
       = Inr (Some [Txt (''board.D4, 11/03/26, 12:00:00, ''), Num (Float 21), Txt '', '',
                    Num (Float (349 / 5)), Txt '', '', Num (Float (105 / 2)), Txt (''%'' @ CRLF)])"
proof -
  let ?rs = "[(Value 20, Value 50), checksum_failure, (Value 22, Value 55)]"
  have a: "\<not> error (sensor example_logger)" "tempc example_logger = []"
    "tempf example_logger = []" "humidity_samples example_logger = []"
    "f_handle example_logger = Some ''beehive_1_board.D4.csv''"
    by (simp_all add: example_logger_def)
  have s: "successes ?rs = [(20, 50), (22, 55)]"
    by (simp add: checksum_failure_def)
  have d: "devID (sensor (ticks ?rs example_logger)) = ''board.D4''"
    using ticks_samples [OF a(1), of ?rs] by (simp del: ticks.simps add: example_logger_def)
  note th = log_data_after_ticks [OF a, of ?rs example_world]
  have c: "tempc (ticks ?rs example_logger) = [Some 20, Some 22]"
    using th unfolding s by (simp del: ticks.simps)
  have l: "map_sum id (\<lambda>r. files (snd r) ''beehive_1_board.D4.csv'')
        (log_data (ticks ?rs example_logger) example_world)
       = Inr (Some [Txt (''board.D4, 11/03/26, 12:00:00, ''), Num (Float 21), Txt '', '',
                    Num (Float (349 / 5)), Txt '', '', Num (Float (105 / 2)), Txt (''%'' @ CRLF)])"
    using th unfolding s
    by (simp del: ticks.simps add: log_row_def d f_write_def arithmetic_mean_def
        get_tempf_float_def example_world_def str_nat.simps digit_char_def)
  from a c l show ?thesis by blast
qed

text \<open>
  Claim C1 as stated fails: after one successful tick and the call of \<^verbatim>\<open>log_data\<close>,
  the Celsius list of the logger still holds the sample.
\<close>

theorem window_after_log_data_counterexample:
  "map_sum id (tempc \<circ> fst)
     (log_data (ticks [(Value 20, Value 50)] example_logger) example_world) = Inr [Some 20]"
  by (simp add: example_logger_def read_sensor_def get_tempc_def get_tempf_def get_humidity_def
      log_data_def average_samples_def mean_def)

text \<open>
  A list without \<^verbatim>\<open>None\<close> is a list of floats; \<^verbatim>\<open>read_sensor\<close> never appends
  \<^verbatim>\<open>None\<close>, and it leaves the file handle alone.
\<close>

lemma no_None_map_Some: "None \<notin> set xs \<Longrightarrow> \<exists>ys. xs = map Some ys"
proof (induction xs)
  case Nil
  then show ?case by simp
next
  case (Cons x xs)
  then obtain ys where "xs = map Some ys" by auto
  moreover from Cons.prems obtain y where "x = Some y" by (cases x) auto
  ultimately have "x # xs = map Some (y # ys)" by simp
  then show ?case ..
qed

lemma average_samples_no_None:
  assumes "None \<notin> set xs"
  shows "\<exists>a. average_samples xs = Inr a"
proof -
  obtain ys where "xs = map Some ys"
    using no_None_map_Some [OF assms] ..
  then show ?thesis
    by (simp add: average_samples_floats)
qed

lemma log_data_without_handle:
  assumes "f_handle logger = None"
    and "None \<notin> set (tempc logger)" and "None \<notin> set (tempf logger)"
    and "None \<notin> set (humidity_samples logger)"
  shows "log_data logger w = Inl (AttributeError ''f'')"
proof -
  obtain a where a: "average_samples (tempc logger) = Inr a"
    using average_samples_no_None [OF assms(2)] ..
  obtain b where b: "average_samples (tempf logger) = Inr b"
    using average_samples_no_None [OF assms(3)] ..
  obtain c where c: "average_samples (humidity_samples logger) = Inr c"
    using average_samples_no_None [OF assms(4)] ..
  show ?thesis
    by (simp add: log_data_def assms(1) a b c)
qed

lemma read_sensor_keeps:
  assumes "None \<notin> set (tempc logger)" and "None \<notin> set (tempf logger)"
    and "None \<notin> set (humidity_samples logger)"
  shows "f_handle (read_sensor temperature_read humidity_read logger) = f_handle logger
   \<and> None \<notin> set (tempc (read_sensor temperature_read humidity_read logger))
   \<and> None \<notin> set (tempf (read_sensor temperature_read humidity_read logger))
   \<and> None \<notin> set (humidity_samples (read_sensor temperature_read humidity_read logger))"
proof (cases temperature_read)
  case (Value t)
  then show ?thesis
    using assms
    by (cases humidity_read)
       (simp_all add: read_sensor_def Let_def get_error_def get_tempc_def get_tempf_def
          get_humidity_def)
next
  case (RuntimeError e)
  then show ?thesis
    using assms by (simp add: read_sensor_def Let_def get_error_def)
qed

lemma ticks_keeps:
  assumes "None \<notin> set (tempc logger)" and "None \<notin> set (tempf logger)"
    and "None \<notin> set (humidity_samples logger)"
  shows "f_handle (ticks rs logger) = f_handle logger
   \<and> None \<notin> set (tempc (ticks rs logger))
   \<and> None \<notin> set (tempf (ticks rs logger))
   \<and> None \<notin> set (humidity_samples (ticks rs logger))"
  using assms
proof (induction rs arbitrary: logger)
  case Nil
  then show ?case by simp
next
  case (Cons r rs)
  note k = read_sensor_keeps [OF Cons.prems, of "fst r" "snd r"]
  from k have 1: "None \<notin> set (tempc (read_sensor (fst r) (snd r) logger))" by blast
  from k have 2: "None \<notin> set (tempf (read_sensor (fst r) (snd r) logger))" by blast
  from k have 3: "None \<notin> set (humidity_samples (read_sensor (fst r) (snd r) logger))" by blast
  from k have 4: "f_handle (read_sensor (fst r) (snd r) logger) = f_handle logger" by blast
  show ?case
    using Cons.IH [OF 1 2 3] 4 by simp
qed

text \<open>
  Claim C7, as the code has it. When the log file cannot be opened, the constructor of
  Logger still returns, having changed nothing outside, and the logger has no file
  handle. The writes are not dropped in silence: after any number of ticks
  \<^verbatim>\<open>log_data\<close> raises \<^verbatim>\<open>AttributeError\<close> on this logger, and so does
  \<^verbatim>\<open>__del__\<close>.
\<close>

theorem Logger_init_open_fails:
  assumes "\<not> openable w logfile"
  shows "snd (Logger_init sen logfile w) = w
    \<and> f_handle (fst (Logger_init sen logfile w)) = None
    \<and> log_data (ticks rs (fst (Logger_init sen logfile w))) w1 = Inl (AttributeError ''f'')
    \<and> Logger_del (ticks rs (fst (Logger_init sen logfile w))) = Inl (AttributeError ''f'')"
proof -
  let ?lg = "fst (Logger_init sen logfile w)"
  have i: "snd (Logger_init sen logfile w) = w" "f_handle ?lg = None"
    "tempc ?lg = []" "tempf ?lg = []" "humidity_samples ?lg = []"
    using assms by (simp_all add: Logger_init_def)
  have n: "None \<notin> set (tempc ?lg)" "None \<notin> set (tempf ?lg)" "None \<notin> set (humidity_samples ?lg)"
    using i by simp_all
  note t = ticks_keeps [OF n, of rs]
  from t i(2) have k1: "f_handle (ticks rs ?lg) = None" by simp
  from t have k2: "None \<notin> set (tempc (ticks rs ?lg))" by blast
  from t have k3: "None \<notin> set (tempf (ticks rs ?lg))" by blast
  from t have k4: "None \<notin> set (humidity_samples (ticks rs ?lg))" by blast
  have "log_data (ticks rs ?lg) w1 = Inl (AttributeError ''f'')"
    by (rule log_data_without_handle [OF k1 k2 k3 k4])
  moreover have "Logger_del (ticks rs ?lg) = Inl (AttributeError ''f'')"
    by (simp add: Logger_del_def k1)
  ultimately show ?thesis using i by simp
qed

theorem Logger_init_open_fails_witness:
  "\<not> openable closed_world ''beehive_1_board.D4.csv''
   \<and> snd (Logger_init (sensor example_logger) ''beehive_1_board.D4.csv'' closed_world) = closed_world
   \<and> log_data (ticks [(Value 20, Value 50)]
        (fst (Logger_init (sensor example_logger) ''beehive_1_board.D4.csv'' closed_world)))
        closed_world = Inl (AttributeError ''f'')"
proof -
  have a: "\<not> openable closed_world ''beehive_1_board.D4.csv''"
    by (simp add: closed_world_def)
  from a Logger_init_open_fails [OF a, of "sensor example_logger" "[(Value 20, Value 50)]" closed_world]
  show ?thesis by blast
qed

section \<open>Properties of main\<close>

lemma py_int_examples:
  "py_int ''4'' = Some 4" "py_int ''99'' = Some 99" "py_int ''abc'' = None"
  by (simp_all add: py_int_def strip_def is_space_def digit_val_def int_literal_def
        int_max_str_digits_def)

text \<open>
  Claim C4 at its two inputs. Without a prefix argument \<^verbatim>\<open>main\<close> raises
  \<^verbatim>\<open>UnboundLocalError\<close> for \<^verbatim>\<open>logfile\<close> before anything is printed; with a
  prefix and no pin argument it prints the message about the default pin and raises
  \<^verbatim>\<open>UnboundLocalError\<close> for \<^verbatim>\<open>sen\<close>. No sensor is built and no file is touched.
\<close>

theorem main_defaults_raise:
  "main [''humtemplogger''] w = (Inl (UnboundLocalError ''logfile''), w)
   \<and> main [''humtemplogger'', ''beehive_1''] w =
       (Inl (UnboundLocalError ''sen''),
        py_print ''no gpio data pins specified, using default value:  4'' w)"
  by (simp add: main_def main_with_def load_local_def)

lemma Sensor_init_not_int:
  "py_int arg = None \<Longrightarrow> Sensor_init arg d w = (Inl (ValueError arg), w)"
  by (simp add: Sensor_init_def)

lemma Sensor_init_out_of_range:
  "py_int arg = Some n \<Longrightarrow> \<not> (0 \<le> n \<and> n \<le> 27) \<Longrightarrow>
   Sensor_init arg d w = (Inl (InvalidPinError ''Invalid pin number.  Must be between 0 and 27''), w)"
  by (auto simp add: Sensor_init_def)

lemma Sensor_init_in_range:
  "py_int arg = Some n \<Longrightarrow> 0 \<le> n \<Longrightarrow> n \<le> 27 \<Longrightarrow>
   \<exists>sen. fst (Sensor_init arg d w) = Inr sen"
  by (simp add: Sensor_init_def split: prod.splits)

text \<open>
  Claim C6 at a pin argument that is not an integer: \<^verbatim>\<open>int\<close> raises
  \<^verbatim>\<open>ValueError\<close>, which \<^verbatim>\<open>main\<close> does not catch, whether the argument comes before
  or after a valid pin.
\<close>

theorem main_pin_not_an_integer:
  "main [''humtemplogger'', ''beehive_1'', ''abc'', ''4''] w = (Inl (ValueError ''abc''), w)
   \<and> fst (main [''humtemplogger'', ''beehive_1'', ''4'', ''abc''] w) = Inl (ValueError ''abc'')"
proof -
  obtain sen where s: "fst (Sensor_init ''4'' None w) = Inr sen"
    using Sensor_init_in_range [of "''4''" 4 None w] by (auto simp add: py_int_examples)
  have a: "main [''humtemplogger'', ''beehive_1'', ''abc'', ''4''] w = (Inl (ValueError ''abc''), w)"
    by (simp add: main_def main_with_def Sensor_init_not_int py_int_examples)
  have b: "fst (main [''humtemplogger'', ''beehive_1'', ''4'', ''abc''] w) = Inl (ValueError ''abc'')"
    using s
    by (cases "Sensor_init ''4'' None w")
       (simp add: main_def main_with_def Sensor_init_not_int py_int_examples split: prod.splits)
  from a b show ?thesis by simp
qed

lemma files_py_print_end [simp]: "files (py_print_end text e w) = files w"
  by (simp add: py_print_end_def)

lemma files_py_print [simp]: "files (py_print text w) = files w"
  by (simp add: py_print_def)

lemma files_sleep [simp]: "files (sleep secs w) = files w"
  by (simp add: sleep_def)

lemma make_loggers_all_out_of_range:
  "\<forall>arg \<in> set pins. \<exists>n. py_int arg = Some n \<and> \<not> (0 \<le> n \<and> n \<le> 27) \<Longrightarrow>
   fst (make_loggers logfile_prefix pins loggers w) = Inr loggers
   \<and> files (snd (make_loggers logfile_prefix pins loggers w)) = files w"
proof (induction pins arbitrary: w)
  case Nil
  then show ?case by simp
next
  case (Cons arg rest)
  then obtain n where n: "py_int arg = Some n" "\<not> (0 \<le> n \<and> n \<le> 27)"
    by auto
  from Cons.prems have r: "\<forall>arg \<in> set rest. \<exists>n. py_int arg = Some n \<and> \<not> (0 \<le> n \<and> n \<le> 27)"
    by simp
  show ?case
    using Cons.IH [OF r] by (simp add: Sensor_init_out_of_range [OF n])
qed

lemma sample_loop_no_loggers:
  "fst (sample_loop readings n [] w) = [] \<and> files (snd (sample_loop readings n [] w)) = files w"
  by (induction n arbitrary: w) simp_all

lemma main_loop_no_loggers:
  "fst (main_loop readings samples [] w) = Inr []
   \<and> files (snd (main_loop readings samples [] w)) = files w"
proof (induction readings arbitrary: w)
  case 0
  then show ?case by simp
next
  case (Suc r)
  obtain w1 where s: "sample_loop (Suc r) samples [] w = ([], w1)" and f: "files w1 = files w"
    using sample_loop_no_loggers [of "Suc r" samples w]
    by (cases "sample_loop (Suc r) samples [] w") simp
  show ?case
    using Suc [of w1] by (simp add: s f)
qed

text \<open>
  When every pin argument is an integer outside 0..27, the ones the constructor of
  Sensor rejects with \<^verbatim>\<open>InvalidPinError\<close>, no logger is built, \<^verbatim>\<open>main\<close> runs its
  loops over the empty list and returns 0, and the files are what they were before: no
  row is written.
\<close>

lemma main_without_sensors:
  assumes "length args > 2" and "args ! 1 \<noteq> ''--help''" and "args ! 1 \<noteq> ''-h''"
    and "\<forall>arg \<in> set (drop 2 args). \<exists>n. py_int arg = Some n \<and> \<not> (0 \<le> n \<and> n \<le> 27)"
  shows "fst (main args w) = Inr 0 \<and> files (snd (main args w)) = files w"
proof -
  obtain w1 where m: "make_loggers (args ! 1) (drop 2 args) [] w = (Inr [], w1)"
    and f1: "files w1 = files w"
    using make_loggers_all_out_of_range [OF assms(4), of "args ! 1" "[]" w]
    by (cases "make_loggers (args ! 1) (drop 2 args) [] w") simp
  obtain w2 where l: "main_loop 5 10 [] w1 = (Inr [], w2)" and f2: "files w2 = files w1"
    using main_loop_no_loggers [of 5 10 w1]
    by (cases "main_loop 5 10 [] w1") simp
  from assms(1) have g: "length args > 1" by simp
  show ?thesis
    using assms(1,2,3) g by (simp del: One_nat_def add: main_def main_with_def m l f1 f2)
qed

lemma main_without_sensors_example:
  "py_int ''99'' = Some 99 \<and> py_int ''-1'' = Some (- 1)
   \<and> fst (main [''humtemplogger'', ''beehive_1'', ''99'', ''-1''] example_world) = Inr 0
   \<and> files (snd (main [''humtemplogger'', ''beehive_1'', ''99'', ''-1''] example_world))
       = files example_world"
proof -
  have p: "py_int ''99'' = Some 99" "py_int ''-1'' = Some (- 1)"
    by (simp_all add: py_int_def strip_def is_space_def digit_val_def int_literal_def
        int_max_str_digits_def)
  have "\<forall>arg \<in> set (drop 2 [''humtemplogger'', ''beehive_1'', ''99'', ''-1'']).
          \<exists>n. py_int arg = Some n \<and> \<not> (0 \<le> n \<and> n \<le> 27)"
    by (simp add: p)
  then show ?thesis
    using p main_without_sensors [of "[''humtemplogger'', ''beehive_1'', ''99'', ''-1'']" example_world]
    by simp
qed

text \<open>
  Claim C9 at runs in which no sensor is built because a pin argument is not an integer:
  \<^verbatim>\<open>main\<close> does not return 0, it ends with the \<^verbatim>\<open>ValueError\<close> of \<^verbatim>\<open>int\<close>,
  also after an out-of-range pin has been reported and skipped.
\<close>

theorem main_no_sensor_raises:
  "main [''humtemplogger'', ''beehive_1'', ''abc''] w = (Inl (ValueError ''abc''), w)
   \<and> main [''humtemplogger'', ''beehive_1'', ''99'', ''abc''] w =
       (Inl (ValueError ''abc''),
        py_print ''skipping pin #99''
          (py_print ''Invalid pin number.  Must be between 0 and 27'' w))"
  by (simp add: main_def main_with_def Sensor_init_def py_int_examples)

text \<open>
  The inner loop with one logger is a sequence of ticks of that logger.
\<close>

lemma sample_loop_single:
  "\<exists>rs w1. sample_loop readings n [logger] w = ([ticks rs logger], w1)"
proof (induction n arbitrary: logger w)
  case 0
  have "sample_loop readings 0 [logger] w = ([ticks [] logger], w)" by simp
  then show ?case by blast
next
  case (Suc n)
  obtain r w1 where d: "dht_next (pin (sensor logger)) w = (r, w1)"
    by (cases "dht_next (pin (sensor logger)) w")
  have "\<exists>w3. sample_loop readings (Suc n) [logger] w
          = sample_loop readings n [read_sensor (fst r) (snd r) logger] w3"
    by (simp add: d) (rule exI, rule refl)
  then obtain w3 where e: "sample_loop readings (Suc n) [logger] w
          = sample_loop readings n [read_sensor (fst r) (snd r) logger] w3" ..
  obtain rs w4 where s: "sample_loop readings n [read_sensor (fst r) (snd r) logger] w3
      = ([ticks rs (read_sensor (fst r) (snd r) logger)], w4)"
    using Suc [of "read_sensor (fst r) (snd r) logger" w3] by blast
  have "sample_loop readings (Suc n) [logger] w = ([ticks (r # rs) logger], w4)"
    unfolding e s by simp
  then show ?case by blast
qed

lemma main_loop_without_handle:
  assumes "f_handle logger = None"
    and "None \<notin> set (tempc logger)" and "None \<notin> set (tempf logger)"
    and "None \<notin> set (humidity_samples logger)"
  shows "fst (main_loop (Suc r) samples [logger] w) = Inl (AttributeError ''f'')"
proof -
  obtain rs w1 where s: "sample_loop (Suc r) samples [logger] w = ([ticks rs logger], w1)"
    using sample_loop_single by blast
  note t = ticks_keeps [OF assms(2,3,4), of rs]
  from t assms(1) have k1: "f_handle (ticks rs logger) = None" by simp
  from t have k2: "None \<notin> set (tempc (ticks rs logger))" by blast
  from t have k3: "None \<notin> set (tempf (ticks rs logger))" by blast
  from t have k4: "None \<notin> set (humidity_samples (ticks rs logger))" by blast
  have "log_data (ticks rs logger) w1 = Inl (AttributeError ''f'')"
    by (rule log_data_without_handle [OF k1 k2 k3 k4])
  then show ?thesis
    by (simp add: s)
qed

lemma Sensor_init_world:
  "openable (snd (Sensor_init arg d w)) = openable w"
  by (simp add: Sensor_init_def dht_next_def split: option.splits)

lemma make_loggers_single_unopenable:
  assumes "fst (Sensor_init arg None w) = Inr sen" and "\<forall>path. \<not> openable w path"
  shows "\<exists>logger w1. make_loggers logfile_prefix [arg] [] w = (Inr [logger], w1)
           \<and> f_handle logger = None \<and> tempc logger = [] \<and> tempf logger = []
           \<and> humidity_samples logger = []"
proof -
  obtain w1 where w1: "Sensor_init arg None w = (Inr sen, w1)"
    using assms(1) by (cases "Sensor_init arg None w") simp
  have o: "openable w1 = openable w"
    using Sensor_init_world [of arg None w] w1 by simp
  show ?thesis
    using assms(2) by (simp add: w1 Logger_init_def o)
qed

text \<open>
  Claim C7 as stated fails: with one valid pin and a log file that cannot be opened,
  the run does not go on without a sink; \<^verbatim>\<open>main\<close> ends with the
  \<^verbatim>\<open>AttributeError\<close> of the first \<^verbatim>\<open>log_data\<close>.
\<close>

theorem main_unopenable_file_counterexample:
  "fst (main [''humtemplogger'', ''beehive_1'', ''4''] closed_world) = Inl (AttributeError ''f'')"
proof -
  obtain sen where s: "fst (Sensor_init ''4'' None closed_world) = Inr sen"
    using Sensor_init_in_range [of "''4''" 4 None closed_world] by (auto simp add: py_int_examples)
  have c: "\<forall>path. \<not> openable closed_world path"
    by (simp add: closed_world_def)
  obtain logger w1 where mk: "make_loggers ''beehive_1'' [''4''] [] closed_world = (Inr [logger], w1)"
    and i: "f_handle logger = None" "None \<notin> set (tempc logger)" "None \<notin> set (tempf logger)"
      "None \<notin> set (humidity_samples logger)"
    using make_loggers_single_unopenable [OF s c, of "''beehive_1''"] by auto
  have five: "(5::nat) = Suc 4" by simp
  have m: "fst (main_loop 5 10 [logger] w1) = Inl (AttributeError ''f'')"
    unfolding five by (rule main_loop_without_handle [OF i])
  show ?thesis
    using m
    by (cases "main_loop 5 10 [logger] w1") (simp del: make_loggers.simps add: main_def main_with_def mk)
qed

section \<open>A run of two cycles\<close>

lemma f_write_fields [simp]:
  "polls (f_write path text w) = polls w" "dht (f_write path text w) = dht w"
  "now (f_write path text w) = now w" "strftime (f_write path text w) = strftime w"
  "openable (f_write path text w) = openable w" "stdout (f_write path text w) = stdout w"
  by (simp_all add: f_write_def)

lemma read_sensor_pin [simp]:
  "pin (sensor (read_sensor temperature_read humidity_read logger)) = pin (sensor logger)"
proof (cases temperature_read)
  case (Value t)
  then show ?thesis
    by (cases humidity_read) (simp_all add: read_sensor_def Let_def get_error_def)
next
  case (RuntimeError e)
  then show ?thesis
    by (simp add: read_sensor_def Let_def get_error_def)
qed

lemma ticks_pin [simp]: "pin (sensor (ticks rs logger)) = pin (sensor logger)"
  by (induction rs arbitrary: logger) simp_all

lemma map_upt_Suc: "map f [0..<Suc n] = f 0 # map (\<lambda>i. f (Suc i)) [0..<n]"
  by (simp only: upt_conv_Cons [of 0 "Suc n"] zero_less_Suc if_True list.map map_Suc_upt [symmetric] map_map comp_def)

text \<open>
  The inner loop with one logger: the ticks are the next answers of the device on the
  pin of the logger; the loop leaves the files alone, and the clock has advanced by one
  second per tick.
\<close>

lemma sample_loop_single_world:
  "\<exists>w1. sample_loop readings n [logger] w
          = ([ticks (map (\<lambda>i. dht w (pin (sensor logger)) (polls w (pin (sensor logger)) + i))
                      [0..<n]) logger], w1)
        \<and> files w1 = files w \<and> now w1 = now w + n
        \<and> polls w1 (pin (sensor logger)) = polls w (pin (sensor logger)) + n
        \<and> dht w1 = dht w \<and> strftime w1 = strftime w"
proof (induction n arbitrary: logger w)
  case 0
  then show ?case by simp
next
  case (Suc n)
  let ?p = "pin (sensor logger)"
  let ?r = "dht w ?p (polls w ?p)"
  let ?lg = "read_sensor (fst ?r) (snd ?r) logger"
  have "\<exists>w3. sample_loop readings (Suc n) [logger] w = sample_loop readings n [?lg] w3
          \<and> files w3 = files w \<and> now w3 = Suc (now w) \<and> polls w3 ?p = Suc (polls w ?p)
          \<and> dht w3 = dht w \<and> strftime w3 = strftime w"
    apply (simp add: dht_next_def sleep_def py_print_end_def)
    apply (rule exI, rule conjI, rule refl)
    apply simp
    done
  then obtain w3 where e: "sample_loop readings (Suc n) [logger] w = sample_loop readings n [?lg] w3"
    and w3: "files w3 = files w" "now w3 = Suc (now w)" "polls w3 ?p = Suc (polls w ?p)"
      "dht w3 = dht w" "strftime w3 = strftime w"
    by blast
  obtain w1 where s: "sample_loop readings n [?lg] w3
          = ([ticks (map (\<lambda>i. dht w3 (pin (sensor ?lg)) (polls w3 (pin (sensor ?lg)) + i))
                      [0..<n]) ?lg], w1)"
    and w1: "files w1 = files w3" "now w1 = now w3 + n"
      "polls w1 (pin (sensor ?lg)) = polls w3 (pin (sensor ?lg)) + n"
      "dht w1 = dht w3" "strftime w1 = strftime w3"
    using Suc [of ?lg w3] by blast
  have t: "ticks (map (\<lambda>i. dht w ?p (polls w ?p + i)) [0..<Suc n]) logger
        = ticks (map (\<lambda>i. dht w3 (pin (sensor ?lg)) (polls w3 (pin (sensor ?lg)) + i)) [0..<n]) ?lg"
    by (simp only: map_upt_Suc ticks.simps read_sensor_pin w3 add_0_right add_Suc add_Suc_right)
  have "sample_loop readings (Suc n) [logger] w
          = ([ticks (map (\<lambda>i. dht w ?p (polls w ?p + i)) [0..<Suc n]) logger], w1)"
    unfolding e s t ..
  moreover have "files w1 = files w" "now w1 = now w + Suc n" "polls w1 ?p = polls w ?p + Suc n"
    "dht w1 = dht w" "strftime w1 = strftime w"
    using w1 w3 by simp_all
  ultimately show ?case by blast
qed

lemma log_data_floats:
  assumes "tempc logger = map Some cs" and "tempf logger = map Some fs"
    and "humidity_samples logger = map Some hs" and "f_handle logger = Some path"
  shows "log_data logger w =
     Inr (logger, f_write path (log_row logger w (arithmetic_mean cs) (arithmetic_mean fs)
                                  (arithmetic_mean hs)) w)"
  by (simp add: log_data_def assms average_samples_floats)

text \<open>
  One pass of the outer loop with one logger: the ticks, then one row with the averages
  over everything the lists hold, the earlier samples included.
\<close>

lemma main_loop_single_cycle:
  assumes "\<not> error (sensor logger)" and "f_handle logger = Some path"
    and "tempc logger = map Some cs" and "tempf logger = map Some fs"
    and "humidity_samples logger = map Some hs"
    and "rs = map (\<lambda>i. dht w (pin (sensor logger)) (polls w (pin (sensor logger)) + i)) [0..<n]"
  shows "\<exists>w1. main_loop (Suc r) n [logger] w
           = main_loop r n [ticks rs logger]
               (f_write path
                  (log_row (ticks rs logger) w1
                     (arithmetic_mean (cs @ map fst (successes rs)))
                     (arithmetic_mean (fs @ map (\<lambda>r. get_tempf_float (fst r)) (successes rs)))
                     (arithmetic_mean (hs @ map snd (successes rs)))) w1)
         \<and> files w1 = files w \<and> now w1 = now w + n
         \<and> polls w1 (pin (sensor logger)) = polls w (pin (sensor logger)) + n
         \<and> dht w1 = dht w \<and> strftime w1 = strftime w"
proof -
  obtain w1 where s: "sample_loop (Suc r) n [logger] w = ([ticks rs logger], w1)"
    and w1: "files w1 = files w" "now w1 = now w + n"
      "polls w1 (pin (sensor logger)) = polls w (pin (sensor logger)) + n"
      "dht w1 = dht w" "strftime w1 = strftime w"
    using sample_loop_single_world [of "Suc r" n logger w] assms(6) by blast
  note t = ticks_samples [OF assms(1), of rs]
  have c: "tempc (ticks rs logger) = map Some (cs @ map fst (successes rs))"
    using t assms(3) by simp
  have f: "tempf (ticks rs logger)
      = map Some (fs @ map (\<lambda>r. get_tempf_float (fst r)) (successes rs))"
    using t assms(4) by (simp add: get_tempf_Some)
  have h: "humidity_samples (ticks rs logger) = map Some (hs @ map snd (successes rs))"
    using t assms(5) by simp
  have p: "f_handle (ticks rs logger) = Some path"
    using t assms(2) by simp
  have l: "log_all [ticks rs logger] w1 =
      (Inr [ticks rs logger],
       f_write path (log_row (ticks rs logger) w1
          (arithmetic_mean (cs @ map fst (successes rs)))
          (arithmetic_mean (fs @ map (\<lambda>r. get_tempf_float (fst r)) (successes rs)))
          (arithmetic_mean (hs @ map snd (successes rs)))) w1)"
    by (simp add: log_data_floats [OF c f h p])
  have "main_loop (Suc r) n [logger] w
           = main_loop r n [ticks rs logger]
               (f_write path
                  (log_row (ticks rs logger) w1
                     (arithmetic_mean (cs @ map fst (successes rs)))
                     (arithmetic_mean (fs @ map (\<lambda>r. get_tempf_float (fst r)) (successes rs)))
                     (arithmetic_mean (hs @ map snd (successes rs)))) w1)"
    by (simp del: log_all.simps add: s l)
  with w1 show ?thesis by blast
qed

lemma upt_3: "[0..<3] = [0, Suc 0, 2]"
  by (simp add: upt_rec)

lemma main_with_two_cycles:
  assumes "files w ''beehive_1_board.D4.csv'' = None"
    and "openable w ''beehive_1_board.D4.csv''"
    and "polls w 4 = 0"
    and "dht w 4 0 = (Value t0, Value h0)"
    and "dht w 4 1 = (Value 20, Value 50)"
    and "dht w 4 2 = (RuntimeError e2, x2)"
    and "dht w 4 3 = (Value 22, Value 55)"
    and "dht w 4 4 = (RuntimeError e4, x4)"
    and "dht w 4 5 = (RuntimeError e5, x5)"
    and "dht w 4 6 = (RuntimeError e6, x6)"
  shows "fst (main_with 2 3 [''humtemplogger'', ''beehive_1'', ''4''] w) = Inr 0
    \<and> files (snd (main_with 2 3 [''humtemplogger'', ''beehive_1'', ''4''] w)) ''beehive_1_board.D4.csv''
      = Some [Txt header,
              Txt (''board.D4, '' @ strftime w ''%m/%d/%y'' (now w + 3) @ '', ''
                   @ strftime w ''%H:%M:%S'' (now w + 3) @ '', ''),
              Num (Float 21), Txt '', '', Num (Float (349 / 5)), Txt '', '', Num (Float (105 / 2)),
              Txt (''%'' @ CRLF),
              Txt (''board.D4, '' @ strftime w ''%m/%d/%y'' (now w + 6) @ '', ''
                   @ strftime w ''%H:%M:%S'' (now w + 6) @ '', ''),
              Num (Float 21), Txt '', '', Num (Float (349 / 5)), Txt '', '', Num (Float (105 / 2)),
              Txt (''%'' @ CRLF)]"
proof -
  let ?path = "''beehive_1_board.D4.csv''"
  define lg0 where "lg0 =
     \<lparr>sensor = \<lparr>pin = 4, devID = ''board.D4'', temp = Some t0, humidity = Some h0,
                 error = False, error_message = None\<rparr>,
      datafile = ?path, tempc = [], tempf = [], humidity_samples = [],
      error_message_L = Some [], f_handle = Some ?path\<rparr>"
  define w0 where "w0 = w\<lparr>polls := (polls w)(4 := Suc 0),
                             files := (files w)(?path \<mapsto> [Txt header])\<rparr>"
  have p: "py_int ''4'' = Some 4"
    by (simp add: py_int_def strip_def is_space_def digit_val_def int_literal_def
        int_max_str_digits_def)
  have s: "str_int 4 = ''4''"
    by (simp add: str_int_def str_nat.simps digit_char_def)
  have mk: "make_loggers ''beehive_1'' [''4''] [] w = (Inr [lg0], w0)"
    using assms(1-4)
    by (simp add: Sensor_init_def p s dht_next_def Logger_init_def f_write_def lg0_def w0_def Let_def)
  have lg0: "\<not> error (sensor lg0)" "f_handle lg0 = Some ?path" "tempc lg0 = map Some []"
    "tempf lg0 = map Some []" "humidity_samples lg0 = map Some []"
    "pin (sensor lg0) = 4" "devID (sensor lg0) = ''board.D4''"
    by (simp_all add: lg0_def)
  have w0: "polls w0 4 = Suc 0" "dht w0 = dht w" "now w0 = now w" "strftime w0 = strftime w"
    "files w0 ?path = Some [Txt header]"
    by (simp_all add: w0_def)

  define rs1 where "rs1 = [(Value 20, Value 50), (RuntimeError e2, x2), (Value 22, Value 55)]"
  have r1: "rs1 = map (\<lambda>i. dht w0 (pin (sensor lg0)) (polls w0 (pin (sensor lg0)) + i)) [0..<3]"
    using assms(5-7) by (simp add: rs1_def lg0 w0 upt_3 numeral_2_eq_2 [symmetric])
  have s1: "successes rs1 = [(20, 50), (22, 55)]"
    by (simp add: rs1_def)
  define lg1 where "lg1 = ticks rs1 lg0"
  note t1 = ticks_samples [OF lg0(1), of rs1]
  have lg1: "\<not> error (sensor lg1)" "f_handle lg1 = Some ?path" "tempc lg1 = map Some [20, 22]"
    "tempf lg1 = map Some [68, 358 / 5]" "humidity_samples lg1 = map Some [50, 55]"
    "pin (sensor lg1) = 4" "devID (sensor lg1) = ''board.D4''"
    using t1 by (simp_all add: lg1_def lg0 s1 get_tempf_def del: ticks.simps)
  obtain w1 where c1: "main_loop (Suc (Suc 0)) 3 [lg0] w0
        = main_loop (Suc 0) 3 [lg1]
            (f_write ?path
               (log_row lg1 w1
                  (arithmetic_mean ([] @ map fst (successes rs1)))
                  (arithmetic_mean ([] @ map (\<lambda>r. get_tempf_float (fst r)) (successes rs1)))
                  (arithmetic_mean ([] @ map snd (successes rs1)))) w1)"
    and w1: "files w1 = files w0" "now w1 = now w0 + 3"
      "polls w1 (pin (sensor lg0)) = polls w0 (pin (sensor lg0)) + 3" "dht w1 = dht w0"
      "strftime w1 = strftime w0"
    using main_loop_single_cycle [OF lg0(1-5) r1, of "Suc 0"] unfolding lg1_def by blast
  define row1 where "row1 =
     [Txt (''board.D4, '' @ strftime w ''%m/%d/%y'' (now w + 3) @ '', ''
           @ strftime w ''%H:%M:%S'' (now w + 3) @ '', ''),
      Num (Float 21), Txt '', '', Num (Float (349 / 5)), Txt '', '', Num (Float (105 / 2)),
      Txt (''%'' @ CRLF)]"
  have e1: "log_row lg1 w1
                  (arithmetic_mean ([] @ map fst (successes rs1)))
                  (arithmetic_mean ([] @ map (\<lambda>r. get_tempf_float (fst r)) (successes rs1)))
                  (arithmetic_mean ([] @ map snd (successes rs1))) = row1"
    by (simp add: log_row_def lg1 w1 w0 s1 arithmetic_mean_def get_tempf_float_def row1_def)
  define w1' where "w1' = f_write ?path row1 w1"
  have w1': "polls w1' 4 = 4" "dht w1' = dht w" "now w1' = now w + 3" "strftime w1' = strftime w"
    using w1 by (simp_all add: w1'_def w0 lg0)

  define rs2 where "rs2 = [(RuntimeError e4, x4), (RuntimeError e5, x5), (RuntimeError e6, x6)]"
  have r2: "rs2 = map (\<lambda>i. dht w1' (pin (sensor lg1)) (polls w1' (pin (sensor lg1)) + i)) [0..<3]"
    using assms(8-10) by (simp add: rs2_def lg1 w1' upt_3)
  have s2: "successes rs2 = []"
    by (simp add: rs2_def)
  obtain w2 where c2: "main_loop (Suc 0) 3 [lg1] w1'
        = main_loop 0 3 [ticks rs2 lg1]
            (f_write ?path
               (log_row (ticks rs2 lg1) w2
                  (arithmetic_mean ([20, 22] @ map fst (successes rs2)))
                  (arithmetic_mean ([68, 358 / 5] @ map (\<lambda>r. get_tempf_float (fst r)) (successes rs2)))
                  (arithmetic_mean ([50, 55] @ map snd (successes rs2)))) w2)"
    and w2: "files w2 = files w1'" "now w2 = now w1' + 3" "strftime w2 = strftime w1'"
    using main_loop_single_cycle [OF lg1(1-5) r2, of 0] by blast
  define row2 where "row2 =
     [Txt (''board.D4, '' @ strftime w ''%m/%d/%y'' (now w + 6) @ '', ''
           @ strftime w ''%H:%M:%S'' (now w + 6) @ '', ''),
      Num (Float 21), Txt '', '', Num (Float (349 / 5)), Txt '', '', Num (Float (105 / 2)),
      Txt (''%'' @ CRLF)]"
  have d2: "devID (sensor (ticks rs2 lg1)) = ''board.D4''"
    using ticks_samples [OF lg1(1), of rs2] lg1(7) by simp
  have e2: "log_row (ticks rs2 lg1) w2
                  (arithmetic_mean ([20, 22] @ map fst (successes rs2)))
                  (arithmetic_mean ([68, 358 / 5] @ map (\<lambda>r. get_tempf_float (fst r)) (successes rs2)))
                  (arithmetic_mean ([50, 55] @ map snd (successes rs2))) = row2"
    by (simp add: log_row_def d2 w2 w1' s2 arithmetic_mean_def row2_def add.commute)
  have two: "(2::nat) = Suc (Suc 0)" by simp
  have m: "main_loop 2 3 [lg0] w0 = (Inr [ticks rs2 lg1], f_write ?path row2 w2)"
    unfolding two c1 e1 w1'_def [symmetric] c2 e2 by simp
  have f: "files (f_write ?path row2 w2) ?path = Some (Txt header # row1 @ row2)"
    by (simp add: w2 w1'_def f_write_def w1 w0)
  show ?thesis
    by (simp del: make_loggers.simps add: main_with_def mk m f) (simp add: row1_def row2_def)
qed

text \<open>
  Claim C2, as the code has it. The program with its two counters started at 2 readings
  of 3 samples, one sensor on pin 4 and a log file that does not exist yet; the poll of
  the constructor succeeds, the three polls of the first cycle give 20 degrees and 50
  percent, a failure, 22 degrees and 55 percent, and the three polls of the second cycle
  fail. Then the run returns 0 and the file holds the header and exactly two rows. The
  first row carries 21, 69.8 and 52.5. The second row carries the same three numbers,
  not NaN: the lists still hold the two samples of the first cycle.
\<close>

theorem two_cycles_of_three_samples:
  assumes "files w ''beehive_1_board.D4.csv'' = None"
    and "openable w ''beehive_1_board.D4.csv''"
    and "polls w 4 = 0"
    and "dht w 4 0 = (Value t0, Value h0)"
    and "dht w 4 1 = (Value 20, Value 50)"
    and "dht w 4 2 = (RuntimeError e2, x2)"
    and "dht w 4 3 = (Value 22, Value 55)"
    and "dht w 4 4 = (RuntimeError e4, x4)"
    and "dht w 4 5 = (RuntimeError e5, x5)"
    and "dht w 4 6 = (RuntimeError e6, x6)"
  shows "fst (main_with 2 3 [''humtemplogger'', ''beehive_1'', ''4''] w) = Inr 0
    \<and> files (snd (main_with 2 3 [''humtemplogger'', ''beehive_1'', ''4''] w)) ''beehive_1_board.D4.csv''
      = Some [Txt header,
              Txt (''board.D4, '' @ strftime w ''%m/%d/%y'' (now w + 3) @ '', ''
                   @ strftime w ''%H:%M:%S'' (now w + 3) @ '', ''),
              Num (Float 21), Txt '', '', Num (Float (349 / 5)), Txt '', '', Num (Float (105 / 2)),
              Txt (''%'' @ CRLF),
              Txt (''board.D4, '' @ strftime w ''%m/%d/%y'' (now w + 6) @ '', ''
                   @ strftime w ''%H:%M:%S'' (now w + 6) @ '', ''),
              Num (Float 21), Txt '', '', Num (Float (349 / 5)), Txt '', '', Num (Float (105 / 2)),
              Txt (''%'' @ CRLF)]"
  by (rule main_with_two_cycles [OF assms])

lemma example_world_facts:
  "files example_world ''beehive_1_board.D4.csv'' = None"
  "openable example_world ''beehive_1_board.D4.csv''"
  "polls example_world 4 = 0"
  "dht example_world 4 0 = (Value 21, Value 52)"
  "dht example_world 4 1 = (Value 20, Value 50)"
  "dht example_world 4 2 = (RuntimeError ''Checksum did not validate. Try again.'', Value 0)"
  "dht example_world 4 3 = (Value 22, Value 55)"
  "dht example_world 4 4 = (RuntimeError ''Checksum did not validate. Try again.'', Value 0)"
  "dht example_world 4 5 = (RuntimeError ''Checksum did not validate. Try again.'', Value 0)"
  "dht example_world 4 6 = (RuntimeError ''Checksum did not validate. Try again.'', Value 0)"
  by (simp_all add: example_world_def example_polls_def checksum_failure_def)

lemma example_world_clock:
  "now example_world = 0"
  "strftime example_world ''%m/%d/%y'' 3 = ''11/03/26''"
  "strftime example_world ''%H:%M:%S'' 3 = ''12:00:03''"
  "strftime example_world ''%m/%d/%y'' 6 = ''11/03/26''"
  "strftime example_world ''%H:%M:%S'' 6 = ''12:00:06''"
  by (simp_all add: example_world_def str_nat.simps digit_char_def)

theorem two_cycles_of_three_samples_witness:
  "files example_world ''beehive_1_board.D4.csv'' = None
   \<and> openable example_world ''beehive_1_board.D4.csv''
   \<and> polls example_world 4 = 0
   \<and> dht example_world 4 1 = (Value 20, Value 50)
   \<and> dht example_world 4 3 = (Value 22, Value 55)
   \<and> fst (main_with 2 3 [''humtemplogger'', ''beehive_1'', ''4''] example_world) = Inr 0
   \<and> files (snd (main_with 2 3 [''humtemplogger'', ''beehive_1'', ''4''] example_world))
        ''beehive_1_board.D4.csv''
      = Some [Txt header,
              Txt ''board.D4, 11/03/26, 12:00:03, '',
              Num (Float 21), Txt '', '', Num (Float (349 / 5)), Txt '', '', Num (Float (105 / 2)),
              Txt (''%'' @ CRLF),
              Txt ''board.D4, 11/03/26, 12:00:06, '',
              Num (Float 21), Txt '', '', Num (Float (349 / 5)), Txt '', '', Num (Float (105 / 2)),
              Txt (''%'' @ CRLF)]"
  using two_cycles_of_three_samples [OF example_world_facts] example_world_facts
  by (simp add: example_world_clock)

text \<open>
  Claim C2 as stated fails: in the example run, what follows the header and the first
  row in the file is a second row with 21, 69.8 and 52.5, where the claim has NaN.
\<close>

theorem second_row_not_NaN_counterexample:
  "map_option (drop 8)
     (files (snd (main_with 2 3 [''humtemplogger'', ''beehive_1'', ''4''] example_world))
        ''beehive_1_board.D4.csv'')
   = Some [Txt ''board.D4, 11/03/26, 12:00:06, '',
           Num (Float 21), Txt '', '', Num (Float (349 / 5)), Txt '', '', Num (Float (105 / 2)),
           Txt (''%'' @ CRLF)]"
  using main_with_two_cycles [OF example_world_facts]
  by (simp add: example_world_clock)

section \<open>A run without an openable log file\<close>

text \<open>
  For every world in which no file can be opened and every valid pin argument, the run
  ends with the \<^verbatim>\<open>AttributeError\<close> of the first \<^verbatim>\<open>log_data\<close>, and the files are
  what they were before.
\<close>

lemma main_unopenable_files:
  assumes "\<forall>path. \<not> openable w path"
    and "py_int arg = Some n" and "0 \<le> n" and "n \<le> 27"
    and "logfile_prefix \<noteq> ''--help''" and "logfile_prefix \<noteq> ''-h''"
  shows "fst (main [prog, logfile_prefix, arg] w) = Inl (AttributeError ''f'')
    \<and> files (snd (main [prog, logfile_prefix, arg] w)) = files w"
proof -
  obtain sen where s: "fst (Sensor_init arg None w) = Inr sen"
    using Sensor_init_in_range [OF assms(2,3,4), of None w] by blast
  obtain w1 where w1: "Sensor_init arg None w = (Inr sen, w1)"
    using s by (cases "Sensor_init arg None w") simp
  have o: "openable w1 = openable w"
    using Sensor_init_world [of arg None w] w1 by simp
  have f1: "files w1 = files w"
    using w1 assms(2,3,4) by (auto simp add: Sensor_init_def dht_next_def split: prod.splits)
  have "\<exists>logger. make_loggers logfile_prefix [arg] [] w = (Inr [logger], w1)
           \<and> f_handle logger = None \<and> tempc logger = [] \<and> tempf logger = []
           \<and> humidity_samples logger = []"
    using assms(1) by (simp add: w1 Logger_init_def o)
  then obtain logger where mk: "make_loggers logfile_prefix [arg] [] w = (Inr [logger], w1)"
    and i: "f_handle logger = None" "None \<notin> set (tempc logger)" "None \<notin> set (tempf logger)"
      "None \<notin> set (humidity_samples logger)"
    by auto
  obtain rs w2 where sl: "sample_loop 5 10 [logger] w1 = ([ticks rs logger], w2)"
    and f2: "files w2 = files w1"
    using sample_loop_single_world [of 5 10 logger w1] by blast
  note t = ticks_keeps [OF i(2,3,4), of rs]
  from t i(1) have k1: "f_handle (ticks rs logger) = None" by simp
  from t have k2: "None \<notin> set (tempc (ticks rs logger))" by blast
  from t have k3: "None \<notin> set (tempf (ticks rs logger))" by blast
  from t have k4: "None \<notin> set (humidity_samples (ticks rs logger))" by blast
  have l: "log_data (ticks rs logger) w2 = Inl (AttributeError ''f'')"
    by (rule log_data_without_handle [OF k1 k2 k3 k4])
  have five: "(5::nat) = Suc 4" by simp
  have m: "main_loop 5 10 [logger] w1 = (Inl (AttributeError ''f''), w2)"
    unfolding five by (subst main_loop.simps) (simp add: sl l)
  show ?thesis
    using assms(5,6)
    by (simp del: make_loggers.simps add: main_def main_with_def mk m f1 f2)
qed

end
